theory Spec2Isabelle
  imports Complex_Main
begin

section \<open>Project Health Scanner: the scoring pipeline of \<open>main.py\<close>\<close>

text \<open>
  A shallow embedding of class \<open>ProjectScanner\<close>. Python's \<open>str\<close> is a sequence of
  code points, modelled as \<open>nat list\<close>; the bytes of a file are a \<open>string\<close> (Isabelle's
  \<open>char\<close> is a byte). Python's \<open>int\<close> is \<open>int\<close>. Python's \<open>float\<close> score is modelled
  as \<open>real\<close>: every constant of the score table is a decimal and rounding is abstracted.
  A \<open>datetime\<close> is an instant, counted in microseconds as an \<open>int\<close>. The leading
  underscore of the method names is dropped, since an Isabelle name cannot start with one.
\<close>

type_synonym str = "nat list"
type_synonym datetime = int

text \<open>A string constant of the source, as the code points of its characters.\<close>

definition lit :: "string \<Rightarrow> str" where
  "lit s = map of_char s"

subsection \<open>Python's string operations\<close>

text \<open>\<open>s.startswith(p)\<close>\<close>

definition startswith :: "'a list \<Rightarrow> 'a list \<Rightarrow> bool" where
  "startswith s p = (take (length p) s = p)"

text \<open>\<open>s.find(sub)\<close>: the index of the first occurrence, \<open>None\<close> for Python's -1.\<close>

fun find_sub :: "'a list \<Rightarrow> 'a list \<Rightarrow> nat option" where
  "find_sub sub [] = (if sub = [] then Some 0 else None)"
| "find_sub sub (c # cs) =
     (if startswith (c # cs) sub then Some 0 else map_option Suc (find_sub sub cs))"

text \<open>\<open>sub in s\<close>\<close>

definition contains :: "'a list \<Rightarrow> 'a list \<Rightarrow> bool" where
  "contains sub s = (find_sub sub s \<noteq> None)"

text \<open>\<open>s.find(sub, start)\<close>, with Python's -1 when there is no occurrence.\<close>

definition find_from :: "'a list \<Rightarrow> 'a list \<Rightarrow> nat \<Rightarrow> int" where
  "find_from s sub start =
     (case find_sub sub (drop start s) of
        None \<Rightarrow> - 1
      | Some i \<Rightarrow> int (start + i))"

text \<open>The slice \<open>s[a:b]\<close> for \<open>a \<ge> 0\<close>; a negative \<open>b\<close> counts from the end.\<close>

definition slice :: "'a list \<Rightarrow> nat \<Rightarrow> int \<Rightarrow> 'a list" where
  "slice s a b =
     (let n = int (length s);
          e = (if b < 0 then max 0 (n + b) else min b n)
      in take (nat e - a) (drop a s))"

text \<open>The code points that \<open>str.strip()\<close> removes (those with \<open>str.isspace\<close>).\<close>

definition isspace :: "nat \<Rightarrow> bool" where
  "isspace c =
     ((9 \<le> c \<and> c \<le> 13) \<or> (28 \<le> c \<and> c \<le> 32) \<or> c = 133 \<or> c = 160 \<or> c = 5760
      \<or> (8192 \<le> c \<and> c \<le> 8202) \<or> c = 8232 \<or> c = 8233 \<or> c = 8239 \<or> c = 8287
      \<or> c = 12288)"

definition strip :: "str \<Rightarrow> str" where
  "strip s = rev (dropWhile isspace (rev (dropWhile isspace s)))"

text \<open>\<open>s.rstrip('/')\<close> on a path constant of the source.\<close>

definition rstrip_slash :: "string \<Rightarrow> string" where
  "rstrip_slash p = rev (dropWhile (\<lambda>c. c = CHR ''/'') (rev p))"

text \<open>\<open>s.split(sep)\<close> for a separator of one character, the only kind the scanner
  uses. The result is never empty.\<close>

fun split_on :: "'a \<Rightarrow> 'a list \<Rightarrow> 'a list list" where
  "split_on sep [] = [[]]"
| "split_on sep (c # cs) =
     (if c = sep then [] # split_on sep cs
      else (case split_on sep cs of
              [] \<Rightarrow> [[c]]
            | f # fs \<Rightarrow> (c # f) # fs))"

text \<open>\<open>s.replace(old, new)\<close> for a non-empty \<open>old\<close>: every occurrence, left to right,
  without overlap.\<close>

function replace :: "'a list \<Rightarrow> 'a list \<Rightarrow> 'a list \<Rightarrow> 'a list" where
  "replace old new [] = []"
| "replace old new (c # cs) =
     (if old \<noteq> [] \<and> startswith (c # cs) old
      then new @ replace old new (drop (length old) (c # cs))
      else c # replace old new cs)"
  by pat_completeness auto
termination
  by (relation "measure (\<lambda>(old, new, s). length s)") auto

text \<open>\<open>str(n)\<close> for a count inside an f-string.\<close>

function str_nat :: "nat \<Rightarrow> str" where
  "str_nat n = (if n < 10 then [48 + n] else str_nat (n div 10) @ [48 + n mod 10])"
  by pat_completeness auto
termination
  by (relation "measure (\<lambda>n. n)") auto

declare str_nat.simps [simp del]

text \<open>\<open>sep.join(xs)\<close>\<close>

fun join :: "'a list \<Rightarrow> 'a list list \<Rightarrow> 'a list" where
  "join sep [] = []"
| "join sep [x] = x"
| "join sep (x # y # ys) = x @ sep @ join sep (y # ys)"

subsection \<open>Reading a text file\<close>

text \<open>
  The library's UTF-8 codec, which the scanner reaches through \<open>open\<close>: the bytes of the
  file give a list of code points, with \<open>None\<close> where the codec finds an error. Under
  \<open>errors='ignore'\<close> the errors are dropped; in the default strict mode one error makes
  the read raise \<open>UnicodeDecodeError\<close>. The locale's encoding is taken to be UTF-8.
\<close>

definition is_continuation :: "nat \<Rightarrow> bool" where
  "is_continuation b = (128 \<le> b \<and> b < 192)"

text \<open>The second byte of a sequence of three or four bytes, which also excludes
  overlong forms, surrogates and code points above \<open>0x10FFFF\<close>.\<close>

definition second_ok :: "nat \<Rightarrow> nat \<Rightarrow> bool" where
  "second_ok b c =
     (is_continuation c \<and>
      (if b < 240 then \<not> (if c < 160 then b = 224 else b = 237)
       else \<not> (if c < 144 then b = 240 else b = 244)))"

fun utf8_decode :: "nat list \<Rightarrow> nat option list" where
  "utf8_decode [] = []"
| "utf8_decode (b # bs) =
     (if b < 128 then Some b # utf8_decode bs
      else if b < 194 \<or> 245 \<le> b then None # utf8_decode bs
      else if b < 224 then
        (case bs of
           [] \<Rightarrow> [None]
         | c # cs \<Rightarrow>
             if is_continuation c
             then Some ((b - 192) * 64 + (c - 128)) # utf8_decode cs
             else None # utf8_decode bs)
      else
        (case bs of
           [] \<Rightarrow> [None]
         | c # cs \<Rightarrow>
             if \<not> second_ok b c then None # utf8_decode bs
             else
               (case cs of
                  [] \<Rightarrow> [None]
                | d # ds \<Rightarrow>
                    if \<not> is_continuation d then None # utf8_decode cs
                    else if b < 240
                    then Some ((b - 224) * 4096 + (c - 128) * 64 + (d - 128)) # utf8_decode ds
                    else
                      (case ds of
                         [] \<Rightarrow> [None]
                       | e # es \<Rightarrow>
                           if is_continuation e
                           then Some ((b - 240) * 262144 + (c - 128) * 4096
                                      + (d - 128) * 64 + (e - 128)) # utf8_decode es
                           else None # utf8_decode ds))))"

text \<open>Text mode translates \<open>\r\n\<close> and a lone \<open>\r\<close> into \<open>\n\<close>.\<close>

fun universal_newlines :: "str \<Rightarrow> str" where
  "universal_newlines [] = []"
| "universal_newlines [c] = [if c = 13 then 10 else c]"
| "universal_newlines (c # d # cs) =
     (if c = 13 \<and> d = 10 then 10 # universal_newlines cs
      else if c = 13 then 10 # universal_newlines (d # cs)
      else c # universal_newlines (d # cs))"

text \<open>What a path of the project directory holds. Opening a directory, or a file
  without permission, raises.\<close>

datatype fs_entry = Directory | File string | Unreadable

text \<open>\<open>open(path, 'r').read()\<close>; \<open>None\<close> when \<open>open\<close> or \<open>read\<close> raises.\<close>

definition read_text :: "fs_entry option \<Rightarrow> str option" where
  "read_text e =
     (case e of
        Some (File bs) \<Rightarrow> map_option universal_newlines (those (utf8_decode (map of_char bs)))
      | _ \<Rightarrow> None)"

text \<open>\<open>open(path, 'r', encoding='utf-8', errors='ignore').read()\<close>\<close>

definition read_text_ignore :: "fs_entry option \<Rightarrow> str option" where
  "read_text_ignore e =
     (case e of
        Some (File bs) \<Rightarrow>
          Some (universal_newlines (List.map_filter (\<lambda>x. x) (utf8_decode (map of_char bs))))
      | _ \<Rightarrow> None)"

text \<open>The lines of a text, each with its line end, as iterating over the file or
  \<open>readlines\<close> gives them.\<close>

fun file_lines :: "str \<Rightarrow> str list" where
  "file_lines [] = []"
| "file_lines (c # cs) =
     (if c = 10 then [10] # file_lines cs
      else (case file_lines cs of
              [] \<Rightarrow> [[c]]
            | l # ls \<Rightarrow> (c # l) # ls))"

subsection \<open>The dictionaries passed between the components\<close>

text \<open>\<open>git_info\<close>, as \<open>_get_git_info\<close> returns it.\<close>

record git_info =
  branch :: str
  last_commit :: "datetime option"
  uncommitted :: int
  status :: str
  remote_status :: str

text \<open>\<open>dep_info\<close>, as \<open>_check_dependencies\<close> returns it; \<open>dep_counts\<close> keeps the
  insertion order of the dictionary (each key is assigned at most once).\<close>

record dep_info =
  has_deps :: bool
  languages :: "str list"
  dep_counts :: "(str \<times> int) list"
  details :: "str list"

text \<open>\<open>github_info\<close>. The key \<open>open_prs\<close> can be missing from the dictionary that
  \<open>_fetch_github_info\<close> returns, so the field is an option.\<close>

record github_info =
  stars :: int
  open_issues :: int
  open_prs :: "int option"
  last_activity :: "datetime option"
  workflow_status :: str

text \<open>\<open>quality_info\<close>, as \<open>_check_project_quality\<close> returns it.\<close>

record quality_info =
  has_readme :: bool
  readme_quality :: int
  has_tests :: bool
  test_coverage :: int
  has_ci_cd :: bool
  ci_cd_type :: str
  has_documentation :: bool
  code_quality_tools :: int
  project_structure :: int

subsection \<open>The score aggregator\<close>

text \<open>\<open>timedelta.days\<close> of the difference of two instants: the floor of the difference
  in days (\<open>div\<close> on \<open>int\<close> rounds down, as the normalised \<open>timedelta\<close> does).\<close>

definition days_between :: "datetime \<Rightarrow> datetime \<Rightarrow> int" where
  "days_between now t = (now - t) div 86400000000"

text \<open>
  \<open>_calculate_health_score\<close> starts at 10.0 and runs through a fixed sequence of
  \<open>score += ...\<close> and \<open>score -= ...\<close> blocks. Each block is one function here, giving
  the amount the block adds, in the order of the source.
\<close>

definition uncommitted_adjustment :: "int \<Rightarrow> real" where
  "uncommitted_adjustment n =
     (if n > 0 then
        (if n > 50 then - 3.0
         else if n > 10 then - 2.0
         else - min 1.0 (real_of_int n * 0.1))
      else 0)"

definition commit_age_adjustment :: "datetime \<Rightarrow> datetime option \<Rightarrow> real" where
  "commit_age_adjustment now lc =
     (case lc of
        None \<Rightarrow> 0
      | Some t \<Rightarrow>
          (let days_old = days_between now t in
           if days_old > 365 then - 4.0
           else if days_old > 180 then - 2.5
           else if days_old > 60 then - 1.5
           else if days_old > 14 then - 0.5
           else 0))"

definition remote_status_adjustment :: "str \<Rightarrow> real" where
  "remote_status_adjustment rs = (if rs = lit ''unknown'' then - 0.5 else 0)"

definition dependencies_adjustment :: "dep_info \<Rightarrow> real" where
  "dependencies_adjustment d =
     (if has_deps d then
        0.5 + (let total_deps = sum_list (map snd (dep_counts d)) in
               if 5 \<le> total_deps \<and> total_deps \<le> 50 then 0.3
               else if total_deps > 100 then - 0.5
               else 0)
      else 0)"

definition multi_language_adjustment :: "dep_info \<Rightarrow> real" where
  "multi_language_adjustment d = (if length (languages d) > 1 then 0.2 else 0)"

definition open_issues_adjustment :: "int \<Rightarrow> real" where
  "open_issues_adjustment n =
     (if n > 50 then - 1.5
      else if n > 20 then - 1.0
      else if n > 10 then - 0.5
      else 0)"

definition open_prs_adjustment :: "int \<Rightarrow> real" where
  "open_prs_adjustment n =
     (if 1 \<le> n \<and> n \<le> 5 then 0.3
      else if n > 10 then - 0.3
      else 0)"

definition stars_adjustment :: "int \<Rightarrow> real" where
  "stars_adjustment n =
     (if n > 1000 then 0.5
      else if n > 100 then 0.3
      else if n > 10 then 0.1
      else 0)"

definition activity_adjustment :: "datetime \<Rightarrow> datetime option \<Rightarrow> datetime option \<Rightarrow> real" where
  "activity_adjustment now la lc =
     (case la of
        None \<Rightarrow> 0
      | Some a \<Rightarrow>
          (case lc of
             None \<Rightarrow> 0
           | Some t \<Rightarrow> if days_between now a \<le> 7 then 0.2 else 0))"

text \<open>The block under \<open>if github_info:\<close>; \<open>.get('open_prs', 0)\<close> reads a missing key
  as 0.\<close>

definition github_adjustment :: "datetime \<Rightarrow> git_info \<Rightarrow> github_info option \<Rightarrow> real" where
  "github_adjustment now g gh =
     (case gh of
        None \<Rightarrow> 0
      | Some i \<Rightarrow>
          open_issues_adjustment (open_issues i)
          + open_prs_adjustment (case open_prs i of None \<Rightarrow> 0 | Some n \<Rightarrow> n)
          + stars_adjustment (stars i)
          + activity_adjustment now (last_activity i) (last_commit g))"

text \<open>The block under \<open>if quality_info:\<close>.\<close>

definition quality_adjustment :: "quality_info option \<Rightarrow> real" where
  "quality_adjustment qo =
     (case qo of
        None \<Rightarrow> 0
      | Some q \<Rightarrow>
          (if has_readme q then 0.3 + real_of_int (readme_quality q) * 0.1 else 0)
          + (if has_documentation q then 0.4 else 0)
          + (if has_tests q then 0.5 + real_of_int (test_coverage q) * 0.1 else 0)
          + (if has_ci_cd q then 0.6 else 0)
          + min 0.5 (real_of_int (code_quality_tools q) * 0.1)
          + real_of_int (project_structure q) * 0.1)"

text \<open>The value of \<open>score\<close> before the last line of the method. The two clock
  readings are those of the two calls of \<open>datetime.now\<close>.\<close>

definition unclamped_score ::
  "datetime \<Rightarrow> datetime \<Rightarrow> git_info \<Rightarrow> dep_info \<Rightarrow> github_info option
     \<Rightarrow> quality_info option \<Rightarrow> real" where
  "unclamped_score now_commit now_activity g d gh q =
     10.0
     + uncommitted_adjustment (uncommitted g)
     + commit_age_adjustment now_commit (last_commit g)
     + remote_status_adjustment (remote_status g)
     + dependencies_adjustment d
     + multi_language_adjustment d
     + github_adjustment now_activity g gh
     + quality_adjustment q"

text \<open>\<open>return max(0.0, min(10.0, score))\<close>\<close>

definition calculate_health_score ::
  "datetime \<Rightarrow> datetime \<Rightarrow> git_info \<Rightarrow> dep_info \<Rightarrow> github_info option
     \<Rightarrow> quality_info option \<Rightarrow> real" where
  "calculate_health_score now_commit now_activity g d gh q =
     max 0.0 (min 10.0 (unclamped_score now_commit now_activity g d gh q))"

subsection \<open>What the scanner reads from outside\<close>

text \<open>The outcome of one \<open>subprocess.run(..., capture_output=True, text=True,
  timeout=5)\<close>: \<open>TimeoutExpired\<close> is raised, another exception is raised (the program is
  missing, the directory cannot be entered, the output cannot be decoded), or the process
  completes with a return code and its decoded standard output.\<close>

datatype proc_result = TimeoutExpired | RunError | Completed int str

text \<open>A parsed JSON document, as \<open>json.load\<close> builds it; an object is the list of the
  items of its dictionary.\<close>

datatype json =
  JNull | JBool bool | JNum real | JStr str | JArr "json list" | JObj "(str \<times> json) list"

text \<open>The two library parsers the scanner calls; \<open>None\<close> stands for the exception they
  raise on an input they reject.\<close>

record pylib =
  fromisoformat :: "str \<Rightarrow> datetime option"
  json_loads :: "str \<Rightarrow> json option"

text \<open>The outcome of one \<open>urlopen\<close>: it raises (no network, timeout, an HTTP error
  status), or gives a response with a status; the body is \<open>None\<close> when reading,
  decoding or \<open>json.loads\<close> raises on it, or when it is not of the shape read below.\<close>

datatype 'a http_result = Raised | Response int "'a option"

text \<open>The repository document of the hosting API, by the three keys the scanner reads
  with \<open>data.get\<close>; \<open>None\<close> is a missing key. The counts are integers, as the API
  documents them.\<close>

record repo_data =
  stargazers_count :: "int option"
  open_issues_count :: "int option"
  updated_at :: "str option"

text \<open>
  One directory, as the scanner sees it: its name and path, whether it is a directory,
  what its relative paths hold, how many paths \<open>rglob\<close> finds for a pattern, the suffixes
  of the regular files in the order \<open>rglob('*')\<close> yields them, the outcomes of the four
  \<open>git\<close> commands, the outcomes of the two requests (the pull-request body is the length
  of the list), and the two clock readings of the aggregator.
\<close>

record project_env =
  dir_name :: str
  dir_path :: str
  is_dir :: bool
  fs :: "string \<Rightarrow> fs_entry option"
  rglob_count :: "string \<Rightarrow> nat"
  rglob_suffixes :: "str list"
  git_branch_run :: proc_result
  git_log_run :: proc_result
  git_status_run :: proc_result
  git_remote_run :: proc_result
  repo_response :: "repo_data http_result"
  pulls_response :: "nat http_result"
  clock_commit :: datetime
  clock_activity :: datetime

text \<open>\<open>(project_path / p).exists()\<close>; \<open>pathlib\<close> drops a trailing slash.\<close>

definition path_exists :: "project_env \<Rightarrow> string \<Rightarrow> bool" where
  "path_exists env p = (fs env (rstrip_slash p) \<noteq> None)"

subsection \<open>The VCS inspector\<close>

text \<open>The \<open>try\<close> block around the parsing of the commit date: any exception in it
  leaves \<open>last_commit\<close> at \<open>None\<close>.\<close>

definition parse_commit_date :: "pylib \<Rightarrow> str \<Rightarrow> datetime option" where
  "parse_commit_date lib out =
     (let commit_date = strip out;
          commit_date =
            (if 43 \<in> set commit_date
             then (case split_on 43 commit_date of
                     [] \<Rightarrow> None
                   | f # _ \<Rightarrow> Some (strip f))
             else Some commit_date)
      in case commit_date of
           None \<Rightarrow> None
         | Some cd \<Rightarrow> fromisoformat lib (replace [32] [84] cd))"

definition count_status_lines :: "str \<Rightarrow> int" where
  "count_status_lines out =
     (if strip out \<noteq> []
      then int (length (filter (\<lambda>line. strip line \<noteq> []) (split_on 10 (strip out))))
      else 0)"

text \<open>\<open>_get_git_info\<close>. The three commands run in this order, and the first one that
  fails ends the method with \<open>None\<close>.\<close>

definition get_git_info :: "pylib \<Rightarrow> proc_result \<Rightarrow> proc_result \<Rightarrow> proc_result \<Rightarrow> git_info option" where
  "get_git_info lib branch_result commit_result status_result =
     (case branch_result of
        Completed rc1 out1 \<Rightarrow>
          if rc1 \<noteq> 0 then None
          else
            (let b = (if strip out1 \<noteq> [] then strip out1 else lit ''main'') in
             case commit_result of
               Completed rc2 out2 \<Rightarrow>
                 if rc2 \<noteq> 0 then None
                 else
                   (let lc = (if strip out2 \<noteq> [] then parse_commit_date lib out2 else None) in
                    case status_result of
                      Completed rc3 out3 \<Rightarrow>
                        if rc3 \<noteq> 0 then None
                        else
                          (let n = count_status_lines out3 in
                           Some \<lparr>branch = b, last_commit = lc, uncommitted = n,
                                 status = (if n = 0 then lit ''clean'' else lit ''dirty''),
                                 remote_status = lit ''unknown''\<rparr>)
                    | _ \<Rightarrow> None)
             | _ \<Rightarrow> None)
      | _ \<Rightarrow> None)"

subsection \<open>Language detection\<close>

definition language_extensions :: "(string \<times> string) list" where
  "language_extensions =
     [(''.py'', ''Python''), (''.js'', ''JavaScript''), (''.ts'', ''TypeScript''),
      (''.go'', ''Go''), (''.rs'', ''Rust''), (''.java'', ''Java''), (''.cpp'', ''C++''),
      (''.c'', ''C''), (''.html'', ''HTML''), (''.css'', ''CSS''), (''.vue'', ''Vue''),
      (''.php'', ''PHP''), (''.rb'', ''Ruby''), (''.swift'', ''Swift''), (''.kt'', ''Kotlin'')]"

text \<open>The loop over the files, with the languages found so far; it stops once there
  are five.\<close>

fun detect_loop :: "str list \<Rightarrow> str list \<Rightarrow> str list" where
  "detect_loop acc [] = acc"
| "detect_loop acc (suffix # rest) =
     (case map_of (map (\<lambda>(e, l). (lit e, lit l)) language_extensions) suffix of
        None \<Rightarrow> detect_loop acc rest
      | Some l \<Rightarrow>
          (let acc' = (if l \<in> set acc then acc else acc @ [l]) in
           if length acc' \<ge> 5 then acc' else detect_loop acc' rest))"

text \<open>\<open>_detect_languages\<close> returns \<open>list(languages)\<close> of a set, in no specified order:
  the result is the set.\<close>

definition detect_languages :: "project_env \<Rightarrow> str set" where
  "detect_languages env = set (detect_loop [] (rglob_suffixes env))"

subsection \<open>The manifest analyzer\<close>

text \<open>\<open>len(x)\<close> on a JSON value; numbers, booleans and null raise \<open>TypeError\<close>.\<close>

fun json_len :: "json \<Rightarrow> nat option" where
  "json_len (JStr s) = Some (length s)"
| "json_len (JArr xs) = Some (length xs)"
| "json_len (JObj kvs) = Some (length kvs)"
| "json_len _ = None"

text \<open>\<open>data.get(key, {})\<close>; only a dictionary has \<open>get\<close>.\<close>

fun json_get :: "json \<Rightarrow> str \<Rightarrow> json option" where
  "json_get (JObj kvs) key = Some (case map_of kvs key of None \<Rightarrow> JObj [] | Some v \<Rightarrow> v)"
| "json_get _ key = None"

text \<open>The two counts read from \<open>package.json\<close>; \<open>None\<close> when something in the
  \<open>try\<close> block raises before \<open>dep_info\<close> is touched.\<close>

definition npm_counts :: "pylib \<Rightarrow> fs_entry \<Rightarrow> (nat \<times> nat) option" where
  "npm_counts lib e =
     Option.bind (read_text (Some e)) (\<lambda>t.
     Option.bind (json_loads lib t) (\<lambda>data.
     Option.bind (json_get data (lit ''dependencies'')) (\<lambda>v1.
     Option.bind (json_len v1) (\<lambda>deps.
     Option.bind (json_get data (lit ''devDependencies'')) (\<lambda>v2.
     Option.bind (json_len v2) (\<lambda>dev_deps. Some (deps, dev_deps)))))))"

definition check_package_json :: "pylib \<Rightarrow> (string \<Rightarrow> fs_entry option) \<Rightarrow> dep_info \<Rightarrow> dep_info" where
  "check_package_json lib files d =
     (case files ''package.json'' of
        None \<Rightarrow> d
      | Some e \<Rightarrow>
          (case npm_counts lib e of
             None \<Rightarrow> d
           | Some (deps, dev_deps) \<Rightarrow>
               d\<lparr>has_deps := True,
                 languages := languages d @ [lit ''Node.js''],
                 dep_counts := dep_counts d @ [(lit ''npm'', int (deps + dev_deps))],
                 details := details d @
                   [lit ''npm: '' @ str_nat deps @ lit '' deps, '' @ str_nat dev_deps
                    @ lit '' dev deps'']\<rparr>))"

definition check_requirements_txt :: "(string \<Rightarrow> fs_entry option) \<Rightarrow> dep_info \<Rightarrow> dep_info" where
  "check_requirements_txt files d =
     (case files ''requirements.txt'' of
        None \<Rightarrow> d
      | Some e \<Rightarrow>
          (case read_text (Some e) of
             None \<Rightarrow> d
           | Some t \<Rightarrow>
               (let lines = map strip
                      (filter (\<lambda>line. strip line \<noteq> [] \<and> \<not> startswith line (lit ''#''))
                         (file_lines t));
                    dep_count = length lines
                in d\<lparr>has_deps := True,
                     languages := languages d @ [lit ''Python''],
                     dep_counts := dep_counts d @ [(lit ''pip'', int dep_count)],
                     details := details d @
                       [lit ''pip: '' @ str_nat dep_count @ lit '' requirements'']\<rparr>)))"

text \<open>The four variables of the loop over the lines of \<open>pyproject.toml\<close>.\<close>

record poetry_state =
  in_poetry_deps :: bool
  in_dev_deps :: bool
  poetry_deps :: nat
  dev_deps :: nat

text \<open>One turn of the loop.\<close>

definition poetry_line :: "poetry_state \<Rightarrow> str \<Rightarrow> poetry_state" where
  "poetry_line s raw =
     (let line = strip raw in
      if line = lit ''[tool.poetry.dependencies]''
      then s\<lparr>in_poetry_deps := True, in_dev_deps := False\<rparr>
      else if startswith line (lit ''[tool.poetry.group.'') \<and> contains (lit ''dependencies]'') line
      then s\<lparr>in_dev_deps := True, in_poetry_deps := False\<rparr>
      else if startswith line (lit ''['') \<and> line \<noteq> lit ''[tool.poetry.dependencies]''
      then s\<lparr>in_poetry_deps := False, in_dev_deps := False\<rparr>
      else if in_poetry_deps s \<and> line \<noteq> [] \<and> \<not> startswith line (lit ''#'') \<and> 61 \<in> set line
      then (if \<not> startswith line (lit ''python'')
            then s\<lparr>poetry_deps := poetry_deps s + 1\<rparr>
            else s)
      else if in_dev_deps s \<and> line \<noteq> [] \<and> \<not> startswith line (lit ''#'') \<and> 61 \<in> set line
      then s\<lparr>dev_deps := dev_deps s + 1\<rparr>
      else s)"

definition poetry_loop :: "str \<Rightarrow> poetry_state" where
  "poetry_loop content =
     foldl poetry_line
       \<lparr>in_poetry_deps = False, in_dev_deps = False, poetry_deps = 0, dev_deps = 0\<rparr>
       (split_on 10 content)"

text \<open>The rough count of an inline \<open>dependencies = [\<close> list, used when the loop counted
  no dependency. When no \<open>]\<close> follows, \<open>find\<close> gives -1 and the slice ends one short of
  the end of the content.\<close>

definition inline_deps :: "str \<Rightarrow> nat \<Rightarrow> nat" where
  "inline_deps content counted =
     (if contains (lit ''dependencies = ['') content \<and> counted = 0
      then (case find_sub (lit ''dependencies = ['') content of
              None \<Rightarrow> counted
            | Some deps_start \<Rightarrow>
                (let deps_section = slice content deps_start (find_from content (lit '']'') deps_start)
                 in count_list deps_section 34 div 2))
      else counted)"

definition check_pyproject :: "(string \<Rightarrow> fs_entry option) \<Rightarrow> dep_info \<Rightarrow> dep_info" where
  "check_pyproject files d =
     (case files ''pyproject.toml'' of
        None \<Rightarrow> d
      | Some e \<Rightarrow>
          (case read_text (Some e) of
             None \<Rightarrow> d
           | Some content \<Rightarrow>
               (let s = poetry_loop content;
                    pd = inline_deps content (poetry_deps s);
                    dd = dev_deps s
                in if pd > 0 \<or> dd > 0
                   then d\<lparr>has_deps := True,
                          languages := languages d @ [lit ''Python''],
                          dep_counts := dep_counts d @ [(lit ''poetry'', int (pd + dd))],
                          details := details d @
                            [if dd > 0
                             then lit ''poetry: '' @ str_nat pd @ lit '' deps, '' @ str_nat dd
                                  @ lit '' dev deps''
                             else lit ''poetry: '' @ str_nat pd @ lit '' deps'']\<rparr>
                   else d)))"

definition check_go_mod :: "(string \<Rightarrow> fs_entry option) \<Rightarrow> dep_info \<Rightarrow> dep_info" where
  "check_go_mod files d =
     (case files ''go.mod'' of
        None \<Rightarrow> d
      | Some e \<Rightarrow>
          (case read_text (Some e) of
             None \<Rightarrow> d
           | Some t \<Rightarrow>
               (let dep_count = length
                      (filter (\<lambda>line. strip line \<noteq> []
                                 \<and> \<not> startswith (strip line) (lit ''module'')
                                 \<and> \<not> startswith (strip line) (lit ''go''))
                         (file_lines t))
                in d\<lparr>has_deps := True,
                     languages := languages d @ [lit ''Go''],
                     dep_counts := dep_counts d @ [(lit ''go'', int dep_count)],
                     details := details d @
                       [lit ''go: '' @ str_nat dep_count @ lit '' modules'']\<rparr>)))"

text \<open>\<open>_check_dependencies\<close>: the four blocks, in the order of the source.\<close>

definition check_dependencies :: "pylib \<Rightarrow> (string \<Rightarrow> fs_entry option) \<Rightarrow> dep_info" where
  "check_dependencies lib files =
     check_go_mod files
       (check_pyproject files
          (check_requirements_txt files
             (check_package_json lib files
                \<lparr>has_deps = False, languages = [], dep_counts = [], details = []\<rparr>)))"

subsection \<open>The remote metadata fetcher\<close>

text \<open>The check that the parsed part has the shape \<open>user/repo\<close>.\<close>

definition validate_repo_part :: "str \<Rightarrow> str option" where
  "validate_repo_part repo_part =
     (if 47 \<in> set repo_part \<and> length (split_on 47 repo_part) = 2
      then Some repo_part else None)"

text \<open>\<open>_get_github_repo\<close>, from the outcome of \<open>git remote get-url origin\<close>.\<close>

definition get_github_repo :: "proc_result \<Rightarrow> str option" where
  "get_github_repo result =
     (case result of
        Completed rc out \<Rightarrow>
          if rc \<noteq> 0 then None
          else
            (let remote_url = strip out in
             if contains (lit ''github.com'') remote_url then
               (if startswith remote_url (lit ''git@github.com:'')
                then validate_repo_part
                       (replace (lit ''.git'') [] (replace (lit ''git@github.com:'') [] remote_url))
                else if startswith remote_url (lit ''https://github.com/'')
                then validate_repo_part
                       (replace (lit ''.git'') [] (replace (lit ''https://github.com/'') [] remote_url))
                else None)
             else None)
      | _ \<Rightarrow> None)"

text \<open>The dictionary that \<open>_analyze_project\<close> starts with and that
  \<open>_fetch_github_info\<close> returns after a failure.\<close>

definition default_github_info :: github_info where
  "default_github_info =
     \<lparr>stars = 0, open_issues = 0, open_prs = Some 0, last_activity = None,
      workflow_status = lit ''unknown''\<rparr>"

text \<open>The parsing of \<open>updated_at\<close>, in its own \<open>try\<close> block.\<close>

definition parse_updated_at :: "pylib \<Rightarrow> str option \<Rightarrow> datetime option" where
  "parse_updated_at lib u =
     (case u of
        None \<Rightarrow> None
      | Some t \<Rightarrow> if t \<noteq> [] then fromisoformat lib (replace (lit ''Z'') (lit ''+00:00'') t) else None)"

text \<open>
  \<open>_fetch_github_info\<close>, from the outcomes of its two requests; the second is sent only
  after the first gave status 200 and a document. A second response with another status
  leaves the dictionary without the key \<open>open_prs\<close>.
\<close>

definition fetch_github_info ::
  "pylib \<Rightarrow> repo_data http_result \<Rightarrow> nat http_result \<Rightarrow> github_info" where
  "fetch_github_info lib repo pulls =
     (case repo of
        Raised \<Rightarrow> default_github_info
      | Response st body \<Rightarrow>
          if st \<noteq> 200 then default_github_info
          else
            (case body of
               None \<Rightarrow> default_github_info
             | Some data \<Rightarrow>
                 (let raw = (case open_issues_count data of None \<Rightarrow> 0 | Some n \<Rightarrow> n);
                      info = \<lparr>stars = (case stargazers_count data of None \<Rightarrow> 0 | Some n \<Rightarrow> n),
                              open_issues = raw,
                              open_prs = None,
                              last_activity = parse_updated_at lib (updated_at data),
                              workflow_status = lit ''unknown''\<rparr>
                  in case pulls of
                       Raised \<Rightarrow> info\<lparr>open_prs := Some 0, open_issues := raw\<rparr>
                     | Response st2 body2 \<Rightarrow>
                         if st2 = 200 then
                           (case body2 of
                              None \<Rightarrow> info\<lparr>open_prs := Some 0, open_issues := raw\<rparr>
                            | Some n \<Rightarrow>
                                info\<lparr>open_prs := Some (int n),
                                     open_issues := max 0 (raw - int n)\<rparr>)
                         else info)))"

subsection \<open>The quality heuristics\<close>

text \<open>The tier of a README from the length of the text read.\<close>

definition readme_tier :: "nat \<Rightarrow> int" where
  "readme_tier n =
     (if n > 2000 then 5
      else if n > 1000 then 4
      else if n > 500 then 3
      else if n > 200 then 2
      else 1)"

definition readme_files :: "string list" where
  "readme_files = [''README.md'', ''README.rst'', ''README.txt'', ''readme.md'']"

text \<open>The loop over the README candidates: the first one that exists decides, and a
  read that raises gives tier 1.\<close>

fun check_readme :: "project_env \<Rightarrow> string list \<Rightarrow> bool \<times> int" where
  "check_readme env [] = (False, 0)"
| "check_readme env (readme_file # rest) =
     (if path_exists env readme_file
      then (True,
            (case read_text_ignore (fs env readme_file) of
               Some content \<Rightarrow> readme_tier (length content)
             | None \<Rightarrow> 1))
      else check_readme env rest)"

definition test_patterns :: "string list" where
  "test_patterns =
     [''test/'', ''tests/'', ''__tests__/'', ''spec/'',
      ''*_test.py'', ''*.test.js'', ''*_test.js'', ''*_spec.py'', ''*.spec.js'',
      ''test_*.py'', ''test*.py'']"

definition count_tests :: "project_env \<Rightarrow> nat" where
  "count_tests env =
     foldl (\<lambda>test_count pattern.
              if CHR ''/'' \<in> set pattern
              then (if path_exists env (rstrip_slash pattern) then test_count + 1 else test_count)
              else test_count + rglob_count env pattern)
       0 test_patterns"

definition ci_files :: "string list" where
  "ci_files =
     [''.github/workflows/'', ''.gitlab-ci.yml'', ''.travis.yml'', ''azure-pipelines.yml'',
      ''Jenkinsfile'', ''circle.yml'', ''.circleci/'']"

definition ci_type :: "string \<Rightarrow> str" where
  "ci_type ci_file =
     (if contains ''github'' ci_file then lit ''GitHub Actions''
      else if contains ''gitlab'' ci_file then lit ''GitLab CI''
      else if contains ''travis'' ci_file then lit ''Travis CI''
      else if contains ''azure'' ci_file then lit ''Azure Pipelines''
      else lit ''Other CI'')"

fun check_ci :: "project_env \<Rightarrow> string list \<Rightarrow> bool \<times> str" where
  "check_ci env [] = (False, lit ''none'')"
| "check_ci env (ci_file # rest) =
     (if path_exists env ci_file then (True, ci_type ci_file) else check_ci env rest)"

definition doc_indicators :: "string list" where
  "doc_indicators =
     [''docs/'', ''doc/'', ''documentation/'', ''wiki/'', ''sphinx/'', ''mkdocs.yml'',
      ''docusaurus.config.js'']"

definition quality_files :: "string list" where
  "quality_files =
     [''.eslintrc'', ''.eslintrc.js'', ''.eslintrc.json'', ''.flake8'', ''setup.cfg'',
      ''.pylintrc'', ''.prettierrc'', ''.prettierrc.js'', ''.prettierrc.json'',
      ''.pre-commit-config.yaml'', ''mypy.ini'', ''pyproject.toml'', ''.editorconfig'']"

definition common_dirs :: "string list" where
  "common_dirs = [''src/'', ''lib/'', ''app/'', ''components/'', ''utils/'', ''config/'']"

text \<open>\<open>_check_project_quality\<close>. The file-system queries are taken not to raise, so the
  outer \<open>except\<close> is never entered.\<close>

definition check_project_quality :: "project_env \<Rightarrow> quality_info" where
  "check_project_quality env =
     (let readme = check_readme env readme_files;
          test_count = count_tests env;
          ci = check_ci env ci_files;
          quality_tools = length (filter (path_exists env) quality_files);
          structure_score = length (filter (path_exists env) common_dirs)
            + (if path_exists env ''package.json'' \<or> path_exists env ''pyproject.toml''
               then 1 else 0)
      in \<lparr>has_readme = fst readme,
          readme_quality = snd readme,
          has_tests = (test_count > 0),
          test_coverage = (if test_count > 0 then int (min 5 (max 1 (test_count div 2))) else 0),
          has_ci_cd = fst ci,
          ci_cd_type = snd ci,
          has_documentation = list_ex (path_exists env) doc_indicators,
          code_quality_tools = int quality_tools,
          project_structure = int (min 5 structure_score)\<rparr>)"

subsection \<open>The analysis of one project and the walker\<close>

text \<open>The dataclass \<open>ProjectHealth\<close>. Its fields carry the prefix \<open>ph_\<close>, since some of
  their names are keys of the dictionaries above.\<close>

record ProjectHealth =
  ph_name :: str
  ph_path :: str
  ph_git_status :: str
  ph_last_commit :: "datetime option"
  ph_uncommitted_changes :: int
  ph_branch :: str
  ph_remote_status :: str
  ph_languages :: "str set"
  ph_dependencies_status :: str
  ph_issues_count :: int
  ph_health_score :: real
  ph_github_repo :: "str option"
  ph_open_issues :: int
  ph_open_prs :: int
  ph_stars :: int
  ph_workflow_status :: str
  ph_last_github_activity :: "datetime option"

text \<open>The remote data that \<open>_analyze_project\<close> passes on: the defaults, or what the
  fetcher returns when a repository identifier was found.\<close>

definition project_github_info :: "pylib \<Rightarrow> project_env \<Rightarrow> github_info" where
  "project_github_info lib env =
     (case get_github_repo (git_remote_run env) of
        None \<Rightarrow> default_github_info
      | Some github_repo \<Rightarrow>
          if github_repo \<noteq> []
          then fetch_github_info lib (repo_response env) (pulls_response env)
          else default_github_info)"

text \<open>
  \<open>_analyze_project\<close>. \<open>None\<close> is returned without \<open>.git\<close>, without \<open>git_info\<close>, and from
  the \<open>except\<close> clause: in this model the one exception left is the \<open>KeyError\<close> for a
  missing \<open>open_prs\<close> when the record is built.
\<close>

definition analyze_project :: "pylib \<Rightarrow> project_env \<Rightarrow> ProjectHealth option" where
  "analyze_project lib env =
     (if \<not> path_exists env ''.git'' then None
      else
        (case get_git_info lib (git_branch_run env) (git_log_run env) (git_status_run env) of
           None \<Rightarrow> None
         | Some g \<Rightarrow>
             (let langs = detect_languages env;
                  d = check_dependencies lib (fs env);
                  github_repo = get_github_repo (git_remote_run env);
                  gh = project_github_info lib env;
                  q = check_project_quality env;
                  health_score =
                    calculate_health_score (clock_commit env) (clock_activity env) g d
                      (Some gh) (Some q);
                  dep_display =
                    (if has_deps d then join (lit '', '') (details d)
                     else lit ''No dependencies found'')
              in case open_prs gh of
                   None \<Rightarrow> None
                 | Some prs \<Rightarrow>
                     Some \<lparr>ph_name = dir_name env,
                           ph_path = dir_path env,
                           ph_git_status = status g,
                           ph_last_commit = last_commit g,
                           ph_uncommitted_changes = uncommitted g,
                           ph_branch = branch g,
                           ph_remote_status = remote_status g,
                           ph_languages = langs,
                           ph_dependencies_status = dep_display,
                           ph_issues_count = open_issues gh,
                           ph_health_score = health_score,
                           ph_github_repo = github_repo,
                           ph_open_issues = open_issues gh,
                           ph_open_prs = prs,
                           ph_stars = stars gh,
                           ph_workflow_status = workflow_status gh,
                           ph_last_github_activity = last_activity gh\<rparr>)))"

text \<open>What \<open>scan_projects\<close> walks over: the base directory and the outcome of
  \<open>iterdir\<close> on it (\<open>None\<close> when it raises).\<close>

record scan_env =
  base_dir :: project_env
  entries :: "project_env list option"

text \<open>One turn of the loop over the entries, with \<open>self.projects\<close> as the state.\<close>

definition scan_item :: "pylib \<Rightarrow> ProjectHealth list \<Rightarrow> project_env \<Rightarrow> ProjectHealth list" where
  "scan_item lib projects item =
     (if is_dir item \<and> \<not> startswith (dir_name item) (lit ''.'')
      then (case analyze_project lib item of
              Some health \<Rightarrow> projects @ [health]
            | None \<Rightarrow> projects)
      else projects)"

text \<open>\<open>scan_projects\<close>, from the list \<open>self.projects\<close> it starts with; \<open>None\<close> when the
  exception of \<open>iterdir\<close> leaves the method.\<close>

definition scan_projects :: "pylib \<Rightarrow> scan_env \<Rightarrow> ProjectHealth list \<Rightarrow> ProjectHealth list option" where
  "scan_projects lib senv projects =
     (let projects1 =
            (if path_exists (base_dir senv) ''.git''
             then (case analyze_project lib (base_dir senv) of
                     Some health \<Rightarrow> projects @ [health]
                   | None \<Rightarrow> projects)
             else projects)
      in case entries senv of
           None \<Rightarrow> None
         | Some items \<Rightarrow> Some (foldl (scan_item lib) projects1 items))"

subsection \<open>Notions used in the statements\<close>

text \<open>A \<open>git\<close> sub-operation fails: it times out, raises, or exits with a return code
  other than 0.\<close>

definition op_fails :: "proc_result \<Rightarrow> bool" where
  "op_fails r = (case r of Completed rc out \<Rightarrow> rc \<noteq> 0 | _ \<Rightarrow> True)"


text \<open>The directories the walker considers: the base directory and the entries of it
  that are directories and whose name does not start with a dot.\<close>

definition walker_candidates :: "scan_env \<Rightarrow> project_env list" where
  "walker_candidates senv =
     base_dir senv #
     (case entries senv of
        None \<Rightarrow> []
      | Some items \<Rightarrow>
          filter (\<lambda>item. is_dir item \<and> \<not> startswith (dir_name item) (lit ''.'')) items)"

text \<open>A line of the output of \<open>git status --porcelain\<close> in the shape the counting
  lemma covers: not empty, no white space at either end, no line feed inside.\<close>

definition status_line_ok :: "str \<Rightarrow> bool" where
  "status_line_ok l = (l \<noteq> [] \<and> \<not> isspace (hd l) \<and> \<not> isspace (last l) \<and> 10 \<notin> set l)"

text \<open>The dictionaries that \<open>_check_dependencies\<close> and \<open>_check_project_quality\<close>
  start with, and return for a directory without any of the files they look for.\<close>

definition no_dep_info :: dep_info where
  "no_dep_info = \<lparr>has_deps = False, languages = [], dep_counts = [], details = []\<rparr>"

definition no_quality_info :: quality_info where
  "no_quality_info =
     \<lparr>has_readme = False, readme_quality = 0, has_tests = False, test_coverage = 0,
      has_ci_cd = False, ci_cd_type = lit ''none'', has_documentation = False,
      code_quality_tools = 0, project_structure = 0\<rparr>"

text \<open>The paths the manifest analyzer and the quality heuristics look for, and a
  directory without any of them: none of these paths exists and \<open>rglob\<close> finds no
  file for a test-file pattern. The directory may hold any other file.\<close>

definition marker_paths :: "string list" where
  "marker_paths =
     [''package.json'', ''requirements.txt'', ''pyproject.toml'', ''go.mod'']
     @ readme_files
     @ filter (\<lambda>pattern. CHR ''/'' \<in> set pattern) test_patterns
     @ ci_files @ doc_indicators @ quality_files @ common_dirs"

definition no_markers :: "project_env \<Rightarrow> bool" where
  "no_markers env =
     (list_all (\<lambda>p. \<not> path_exists env p) marker_paths
      \<and> list_all (\<lambda>pattern. CHR ''/'' \<in> set pattern \<or> rglob_count env pattern = 0)
            test_patterns)"

subsection \<open>Example inputs\<close>

text \<open>A stand-in for the library parsers. It parses the local time of one commit to
  the instant 0 and the same wall-clock time in UTC, one hour later for the zone of the
  commit, to the instant of 3600 seconds; it rejects every other text.\<close>

definition example_lib :: pylib where
  "example_lib =
     \<lparr>fromisoformat =
        (\<lambda>s. if s = lit ''2024-01-01T10:00:00'' then Some 0
             else if s = lit ''2024-01-01T10:00:00+00:00'' then Some 3600000000
             else None),
      json_loads = (\<lambda>s. None)\<rparr>"

text \<open>A repository with a clean working tree and nothing in it but \<open>.git\<close>: a commit
  one day before the scan, and no remote (\<open>git remote get-url origin\<close> exits with 2).\<close>

definition bare_project :: project_env where
  "bare_project =
     \<lparr>dir_name = lit ''proj'', dir_path = lit ''/home/u/proj'', is_dir = True,
      fs = (\<lambda>p. if p = ''.git'' then Some Directory else None),
      rglob_count = (\<lambda>p. 0), rglob_suffixes = [],
      git_branch_run = Completed 0 (lit ''main\<newline>''),
      git_log_run = Completed 0 (lit ''2024-01-01 10:00:00 +0100\<newline>''),
      git_status_run = Completed 0 [],
      git_remote_run = Completed 2 [],
      repo_response = Raised, pulls_response = Raised,
      clock_commit = 86400000000, clock_activity = 86400000000\<rparr>"

text \<open>The same repository with 75 untracked files, scanned 400 days after the
  commit.\<close>

definition untracked_75 :: str where
  "untracked_75 = concat (map (\<lambda>l. l @ [10]) (replicate 75 (lit ''?? f'')))"

definition stale_project :: project_env where
  "stale_project =
     bare_project
       \<lparr>git_status_run := Completed 0 untracked_75,
        clock_commit := 400 * 86400000000 + 1000,
        clock_activity := 400 * 86400000000 + 2000\<rparr>"


text \<open>The repository document of a remote with 42 stars and 30 open issues.\<close>

definition example_repo_data :: repo_data where
  "example_repo_data =
     \<lparr>stargazers_count = Some 42, open_issues_count = Some 30,
      updated_at = Some (lit ''2024-01-01T10:00:00Z'')\<rparr>"

text \<open>The record of \<open>stale_project\<close>.\<close>

definition stale_record :: ProjectHealth where
  "stale_record =
     \<lparr>ph_name = lit ''proj'', ph_path = lit ''/home/u/proj'',
      ph_git_status = lit ''dirty'', ph_last_commit = Some 0,
      ph_uncommitted_changes = 75, ph_branch = lit ''main'',
      ph_remote_status = lit ''unknown'', ph_languages = {},
      ph_dependencies_status = lit ''No dependencies found'', ph_issues_count = 0,
      ph_health_score = 2.5, ph_github_repo = None, ph_open_issues = 0,
      ph_open_prs = 0, ph_stars = 0, ph_workflow_status = lit ''unknown'',
      ph_last_github_activity = None\<rparr>"

text \<open>A project whose \<open>git log\<close> times out, and one whose last commit carries a
  negative UTC offset, which the library parser rejects after the inspector has put a
  \<open>T\<close> in place of each space.\<close>

definition timeout_project :: project_env where
  "timeout_project = bare_project\<lparr>git_log_run := TimeoutExpired\<rparr>"

definition west_project :: project_env where
  "west_project =
     bare_project\<lparr>git_log_run := Completed 0 (lit ''2024-01-01 10:00:00 -0500\<newline>'')\<rparr>"



text \<open>A directory without repository metadata, and a base directory that holds it next
  to \<open>stale_project\<close>.\<close>

definition plain_dir :: project_env where
  "plain_dir =
     bare_project\<lparr>dir_name := lit ''notes'', dir_path := lit ''/home/u/notes'', fs := (\<lambda>p. None)\<rparr>"

definition example_scan :: scan_env where
  "example_scan =
     \<lparr>base_dir = bare_project\<lparr>dir_name := lit ''u'', dir_path := lit ''/home/u'', fs := (\<lambda>p. None)\<rparr>,
      entries = Some [stale_project, plain_dir]\<rparr>"

text \<open>A README of 101 times the letter \<open>e\<close> with an acute accent, two bytes each in
  UTF-8, in a project that has nothing else; and a project whose \<open>README.rst\<close> is 201
  ASCII letters.\<close>

definition accented_readme :: string where
  "accented_readme = concat (replicate 101 [CHR 0xC3, CHR 0xA9])"

definition accented_project :: project_env where
  "accented_project =
     bare_project
       \<lparr>fs := (\<lambda>p. if p = ''.git'' then Some Directory
                   else if p = ''README.md'' then Some (File accented_readme)
                   else None)\<rparr>"

definition ascii_project :: project_env where
  "ascii_project =
     bare_project
       \<lparr>fs := (\<lambda>p. if p = ''.git'' then Some Directory
                   else if p = ''README.rst'' then Some (File (replicate 201 (CHR ''a'')))
                   else None)\<rparr>"

text \<open>A \<open>pyproject.toml\<close> that pins the runtime and declares two dependencies, one of
  which has a name that starts with \<open>python\<close>; and a directory that holds only this
  manifest.\<close>

definition poetry_manifest :: string where
  "poetry_manifest =
     ''[tool.poetry.dependencies]\<newline>python = \"^3.9\"\<newline>python-dateutil = \"^2.8\"\<newline>requests = \"^2.31\"\<newline>''"

definition poetry_only :: "string \<Rightarrow> fs_entry option" where
  "poetry_only = (\<lambda>p. if p = ''pyproject.toml'' then Some (File poetry_manifest) else None)"

text \<open>A directory with a \<open>requirements.txt\<close> and a \<open>pyproject.toml\<close>, both for Python.\<close>

definition pip_and_poetry :: "string \<Rightarrow> fs_entry option" where
  "pip_and_poetry =
     (\<lambda>p. if p = ''requirements.txt'' then Some (File ''requests\<newline>'')
          else if p = ''pyproject.toml''
          then Some (File ''[tool.poetry.dependencies]\<newline>requests = \"^2.31\"\<newline>'')
          else None)"

section \<open>Properties\<close>

subsection \<open>The score is bounded\<close>

text \<open>
  Claim C1. For every VCS data, dependency data, optional remote data and quality data
  (and every clock reading), the health score that the aggregator returns lies in the
  closed interval from 0.0 to 10.0, whatever the unclamped sum is.
\<close>

theorem health_score_in_range:
  "0 \<le> calculate_health_score now_commit now_activity g d gh q
   \<and> calculate_health_score now_commit now_activity g d gh q \<le> 10"
  by (simp add: calculate_health_score_def)

subsection \<open>Helper lemmas\<close>

subsubsection \<open>String constants, stripping and splitting\<close>

lemma lit_eq_iff [simp]: "lit s = lit t \<longleftrightarrow> s = t"
  by (simp add: lit_def inj_map_eq_map inj_on_def)

lemma lit_Nil_iff [simp]: "lit s = [] \<longleftrightarrow> s = []" "[] = lit s \<longleftrightarrow> s = []"
  by (auto simp: lit_def)

lemma dropWhile_hd: "xs \<noteq> [] \<Longrightarrow> \<not> P (hd xs) \<Longrightarrow> dropWhile P xs = xs"
  by (cases xs) auto

lemma strip_id:
  assumes "s \<noteq> []" "\<not> isspace (hd s)" "\<not> isspace (last s)"
  shows "strip s = s"
proof -
  have a: "dropWhile isspace s = s"
    using assms by (cases s) auto
  have b: "dropWhile isspace (rev s) = rev s"
    using assms by (intro dropWhile_hd) (simp_all add: hd_rev)
  show ?thesis by (simp add: strip_def a b)
qed

lemma strip_trailing_newline:
  assumes "s \<noteq> []" "\<not> isspace (hd s)" "\<not> isspace (last s)"
  shows "strip (s @ [10]) = s"
proof -
  have a: "dropWhile isspace (s @ [10]) = s @ [10]"
    using assms by (cases s) auto
  have b: "dropWhile isspace (rev s) = rev s"
    using assms by (intro dropWhile_hd) (simp_all add: hd_rev)
  have c: "isspace 10" by (simp add: isspace_def)
  show ?thesis by (simp add: strip_def a b c)
qed

lemma split_on_no_sep: "sep \<notin> set l \<Longrightarrow> split_on sep l = [l]"
  by (induction l) auto

lemma split_on_append: "sep \<notin> set l \<Longrightarrow> split_on sep (l @ sep # r) = l # split_on sep r"
  by (induction l) auto

lemma join_Cons: "xs \<noteq> [] \<Longrightarrow> join sep (x # xs) = x @ sep @ join sep xs"
  by (cases xs) auto

lemma concat_lines_join:
  "ls \<noteq> [] \<Longrightarrow> concat (map (\<lambda>l. l @ [10::nat]) ls) = join [10] ls @ [10]"
  by (induction ls rule: list_nonempty_induct) (auto simp: join_Cons)

lemma split_on_join:
  "ls \<noteq> [] \<Longrightarrow> \<forall>l\<in>set ls. 10 \<notin> set l \<Longrightarrow> split_on (10::nat) (join [10] ls) = ls"
  by (induction ls rule: list_nonempty_induct) (auto simp: join_Cons split_on_no_sep split_on_append)

lemma join_ends:
  "ls \<noteq> [] \<Longrightarrow> \<forall>l\<in>set ls. l \<noteq> [] \<Longrightarrow>
     join [10::nat] ls \<noteq> [] \<and> hd (join [10] ls) = hd (hd ls) \<and> last (join [10] ls) = last (last ls)"
  by (induction ls rule: list_nonempty_induct) (auto simp: join_Cons)

lemma count_status_lines_lines:
  assumes "\<forall>l\<in>set ls. status_line_ok l"
  shows "count_status_lines (concat (map (\<lambda>l. l @ [10]) ls)) = int (length ls)"
proof (cases "ls = []")
  case True
  then show ?thesis by (simp add: count_status_lines_def strip_def)
next
  case False
  have ne: "\<forall>l\<in>set ls. l \<noteq> []" using assms by (simp add: status_line_ok_def)
  have hdl: "hd ls \<in> set ls" "last ls \<in> set ls" using False by auto
  have j: "join [10] ls \<noteq> []" "\<not> isspace (hd (join [10] ls))" "\<not> isspace (last (join [10] ls))"
    using join_ends[OF False ne] assms hdl by (auto simp: status_line_ok_def)
  have s: "strip (concat (map (\<lambda>l. l @ [10]) ls)) = join [10] ls"
    by (simp add: concat_lines_join[OF False] strip_trailing_newline[OF j])
  have sp: "split_on 10 (join [10] ls) = ls"
    using split_on_join[OF False] assms by (simp add: status_line_ok_def)
  have f: "filter (\<lambda>line. strip line \<noteq> []) ls = ls"
    using assms by (auto simp: filter_id_conv status_line_ok_def strip_id)
  show ?thesis using j(1) by (simp add: count_status_lines_def s sp f)
qed

subsubsection \<open>The components on the stale project\<close>

lemma default_github_info_sel [simp]:
  "stars default_github_info = 0" "open_issues default_github_info = 0"
  "open_prs default_github_info = Some 0" "last_activity default_github_info = None"
  "workflow_status default_github_info = lit ''unknown''"
  by (simp_all add: default_github_info_def)

lemma no_dep_info_sel [simp]:
  "has_deps no_dep_info = False" "languages no_dep_info = []"
  "dep_counts no_dep_info = []" "details no_dep_info = []"
  by (simp_all add: no_dep_info_def)

lemma strip_main: "strip (lit ''main\<newline>'') = lit ''main''"
  by (simp add: strip_def isspace_def lit_def)

lemma parse_example_date:
  "parse_commit_date example_lib (lit ''2024-01-01 10:00:00 +0100\<newline>'') = Some 0"
  by (simp add: parse_commit_date_def example_lib_def strip_def isspace_def startswith_def lit_def)

lemma strip_example_date: "strip (lit ''2024-01-01 10:00:00 +0100\<newline>'') \<noteq> []"
  by (simp add: strip_def isspace_def lit_def)

lemma count_75: "count_status_lines untracked_75 = 75"
  unfolding untracked_75_def
  by (subst count_status_lines_lines) (simp_all add: status_line_ok_def isspace_def lit_def)

lemma stale_git_info:
  "get_git_info example_lib (git_branch_run stale_project) (git_log_run stale_project)
     (git_status_run stale_project)
   = Some \<lparr>branch = lit ''main'', last_commit = Some 0, uncommitted = 75,
            status = lit ''dirty'', remote_status = lit ''unknown''\<rparr>"
  by (simp add: get_git_info_def stale_project_def bare_project_def count_75
      strip_main parse_example_date strip_example_date)

lemma check_dependencies_none:
  assumes "files ''package.json'' = None" "files ''requirements.txt'' = None"
    "files ''pyproject.toml'' = None" "files ''go.mod'' = None"
  shows "check_dependencies lib files = no_dep_info"
  using assms
  by (simp add: check_dependencies_def check_go_mod_def check_pyproject_def
      check_requirements_txt_def check_package_json_def no_dep_info_def)


lemma check_project_quality_none:
  assumes "no_markers env"
  shows "check_project_quality env = no_quality_info"
proof -
  have p: "list_all (\<lambda>p. \<not> path_exists env p) marker_paths"
    and g: "list_all (\<lambda>pattern. CHR ''/'' \<in> set pattern \<or> rglob_count env pattern = 0)
              test_patterns"
    using assms by (simp_all add: no_markers_def)
  have r: "check_readme env readme_files = (False, 0)"
    using p by (simp add: marker_paths_def readme_files_def path_exists_def rstrip_slash_def)
  have t: "count_tests env = 0"
    using p g
    by (simp add: marker_paths_def count_tests_def test_patterns_def path_exists_def
        rstrip_slash_def)
  have c: "check_ci env ci_files = (False, lit ''none'')"
    using p by (simp add: marker_paths_def ci_files_def path_exists_def rstrip_slash_def)
  have d: "list_ex (path_exists env) doc_indicators = False"
    using p by (simp add: marker_paths_def doc_indicators_def path_exists_def rstrip_slash_def)
  have q: "filter (path_exists env) quality_files = []"
    using p by (simp add: marker_paths_def quality_files_def path_exists_def rstrip_slash_def)
  have s: "filter (path_exists env) common_dirs = []"
    using p by (simp add: marker_paths_def common_dirs_def path_exists_def rstrip_slash_def)
  have m: "\<not> path_exists env ''package.json''" "\<not> path_exists env ''pyproject.toml''"
    using p by (simp_all add: marker_paths_def path_exists_def rstrip_slash_def)
  show ?thesis
    by (simp add: check_project_quality_def Let_def r t c d q s m no_quality_info_def)
qed

lemma no_markers_only_git:
  assumes "\<forall>p. p \<noteq> ''.git'' \<longrightarrow> fs env p = None" "\<forall>pat. rglob_count env pat = 0"
  shows "no_markers env"
  using assms
  by (simp add: no_markers_def marker_paths_def readme_files_def test_patterns_def ci_files_def
      doc_indicators_def quality_files_def common_dirs_def path_exists_def rstrip_slash_def)

lemma base_score:
  assumes "uncommitted g = 75" "last_commit g = Some t" "days_between now t = 400"
    "remote_status g = lit ''unknown''"
  shows "calculate_health_score now now' g no_dep_info (Some default_github_info) (Some no_quality_info) = 2.5"
  using assms
  by (simp add: calculate_health_score_def unclamped_score_def uncommitted_adjustment_def
      commit_age_adjustment_def remote_status_adjustment_def dependencies_adjustment_def
      multi_language_adjustment_def github_adjustment_def quality_adjustment_def
      open_issues_adjustment_def open_prs_adjustment_def stars_adjustment_def
      activity_adjustment_def default_github_info_def no_dep_info_def no_quality_info_def)

lemma get_git_info_remote_status:
  "get_git_info lib b l s = Some g \<Longrightarrow> remote_status g = lit ''unknown''"
  by (auto simp: get_git_info_def Let_def split: proc_result.splits if_splits)

lemma stale_project_record:
  "analyze_project example_lib stale_project =
     Some \<lparr>ph_name = lit ''proj'', ph_path = lit ''/home/u/proj'',
           ph_git_status = lit ''dirty'', ph_last_commit = Some 0,
           ph_uncommitted_changes = 75, ph_branch = lit ''main'',
           ph_remote_status = lit ''unknown'', ph_languages = {},
           ph_dependencies_status = lit ''No dependencies found'', ph_issues_count = 0,
           ph_health_score = 2.5, ph_github_repo = None, ph_open_issues = 0,
           ph_open_prs = 0, ph_stars = 0, ph_workflow_status = lit ''unknown'',
           ph_last_github_activity = None\<rparr>"
proof -
  have d: "check_dependencies example_lib (fs stale_project) = no_dep_info"
    by (intro check_dependencies_none) (simp_all add: stale_project_def bare_project_def)
  have q: "check_project_quality stale_project = no_quality_info"
    by (intro check_project_quality_none no_markers_only_git)
      (simp_all add: stale_project_def bare_project_def)
  have r: "get_github_repo (git_remote_run stale_project) = None"
    by (simp add: stale_project_def bare_project_def get_github_repo_def)
  have gh: "project_github_info example_lib stale_project = default_github_info"
    by (simp add: project_github_info_def r)
  have git: "path_exists stale_project ''.git''"
    by (simp add: path_exists_def rstrip_slash_def stale_project_def bare_project_def)
  have sc: "calculate_health_score (clock_commit stale_project) (clock_activity stale_project)
              \<lparr>branch = lit ''main'', last_commit = Some 0, uncommitted = 75,
               status = lit ''dirty'', remote_status = lit ''unknown''\<rparr>
              no_dep_info (Some default_github_info) (Some no_quality_info) = 2.5"
    by (rule base_score [where t = 0])
      (simp_all add: days_between_def stale_project_def bare_project_def)
  have l: "detect_languages stale_project = {}"
    by (simp add: detect_languages_def stale_project_def bare_project_def)
  have n: "dir_name stale_project = lit ''proj''" "dir_path stale_project = lit ''/home/u/proj''"
    by (simp_all add: stale_project_def bare_project_def)
  show ?thesis
    by (simp add: analyze_project_def git stale_git_info d q gh r l n sc Let_def)
qed

subsubsection \<open>The inspector, the analysis and the walker\<close>

lemma get_git_info_fails:
  "op_fails b \<or> op_fails l \<or> op_fails s \<Longrightarrow> get_git_info lib b l s = None"
  by (auto simp: get_git_info_def op_fails_def Let_def split: proc_result.splits)

lemma get_git_info_completes:
  assumes "b = Completed 0 o1" "l = Completed 0 o2" "s = Completed 0 o3"
  shows "get_git_info lib b l s =
     Some \<lparr>branch = (if strip o1 \<noteq> [] then strip o1 else lit ''main''),
           last_commit = (if strip o2 \<noteq> [] then parse_commit_date lib o2 else None),
           uncommitted = count_status_lines o3,
           status = (if count_status_lines o3 = 0 then lit ''clean'' else lit ''dirty''),
           remote_status = lit ''unknown''\<rparr>"
  using assms by (simp add: get_git_info_def Let_def)

lemma not_op_fails: "\<not> op_fails r \<longleftrightarrow> (\<exists>out. r = Completed 0 out)"
  by (cases r) (auto simp: op_fails_def)

lemma analyze_project_Some:
  assumes "analyze_project lib env = Some r"
  shows "path_exists env ''.git''"
    and "ph_name r = dir_name env"
    and "ph_path r = dir_path env"
    and "\<exists>g. get_git_info lib (git_branch_run env) (git_log_run env) (git_status_run env) = Some g
           \<and> ph_remote_status r = remote_status g
           \<and> ph_health_score r =
               calculate_health_score (clock_commit env) (clock_activity env) g
                 (check_dependencies lib (fs env)) (Some (project_github_info lib env))
                 (Some (check_project_quality env))"
  using assms
  by (auto simp: analyze_project_def Let_def split: if_splits option.splits)

lemma analyze_project_no_git: "\<not> path_exists env ''.git'' \<Longrightarrow> analyze_project lib env = None"
  by (simp add: analyze_project_def)

lemma scan_item_mem:
  assumes "r \<in> set (scan_item lib projects item)"
  shows "r \<in> set projects
         \<or> (is_dir item \<and> \<not> startswith (dir_name item) (lit ''.'')
            \<and> analyze_project lib item = Some r)"
  using assms by (auto simp: scan_item_def split: if_splits option.splits)

lemma foldl_scan_item_mem:
  assumes "r \<in> set (foldl (scan_item lib) projects items)"
  shows "r \<in> set projects
         \<or> (\<exists>item\<in>set items. is_dir item \<and> \<not> startswith (dir_name item) (lit ''.'')
              \<and> analyze_project lib item = Some r)"
  using assms
proof (induction items arbitrary: projects)
  case Nil
  then show ?case by simp
next
  case (Cons item items)
  from Cons.IH [of "scan_item lib projects item"] Cons.prems
  show ?case using scan_item_mem [of r lib projects item] by auto
qed

lemma scan_projects_mem:
  assumes "scan_projects lib senv projects = Some ps" "r \<in> set ps"
  shows "r \<in> set projects
         \<or> (\<exists>env\<in>set (walker_candidates senv). analyze_project lib env = Some r)"
proof -
  obtain items where it: "entries senv = Some items"
    using assms(1) by (auto simp: scan_projects_def Let_def split: option.splits)
  define projects1 where "projects1 =
     (if path_exists (base_dir senv) ''.git''
      then (case analyze_project lib (base_dir senv) of
              Some health \<Rightarrow> projects @ [health] | None \<Rightarrow> projects)
      else projects)"
  have ps: "ps = foldl (scan_item lib) projects1 items"
    using assms(1) it by (simp add: scan_projects_def projects1_def)
  have p1: "r \<in> set projects1 \<Longrightarrow> r \<in> set projects \<or> analyze_project lib (base_dir senv) = Some r"
    by (auto simp: projects1_def split: if_splits option.splits)
  from foldl_scan_item_mem [of r lib projects1 items] assms(2) ps
  show ?thesis using p1 it by (auto simp: walker_candidates_def)
qed

subsubsection \<open>The fetcher\<close>






subsubsection \<open>The components on the other example inputs\<close>

lemma stale_record_eq: "analyze_project example_lib stale_project = Some stale_record"
  by (simp add: stale_project_record stale_record_def)

lemma example_scan_result: "scan_projects example_lib example_scan [] = Some [stale_record]"
proof -
  have b: "\<not> path_exists (base_dir example_scan) ''.git''"
    by (simp add: example_scan_def path_exists_def)
  have p: "analyze_project example_lib plain_dir = None"
    by (rule analyze_project_no_git) (simp add: plain_dir_def path_exists_def)
  have s: "is_dir stale_project" "\<not> startswith (dir_name stale_project) (lit ''.'')"
    by (simp_all add: stale_project_def bare_project_def startswith_def lit_def)
  have e: "entries example_scan = Some [stale_project, plain_dir]"
    by (simp add: example_scan_def)
  show ?thesis
    by (simp add: scan_projects_def b e scan_item_def s stale_record_eq p)
qed

lemma example_scan_candidates: "walker_candidates example_scan = [base_dir example_scan, stale_project, plain_dir]"
  by (simp add: walker_candidates_def example_scan_def stale_project_def plain_dir_def
      bare_project_def startswith_def lit_def)

lemma example_scan_paths:
  "map dir_path (walker_candidates example_scan) = [lit ''/home/u'', lit ''/home/u/proj'', lit ''/home/u/notes'']"
  by (simp add: example_scan_candidates)
     (simp add: example_scan_def stale_project_def plain_dir_def bare_project_def)

lemma timeout_project_fails: "op_fails (git_log_run timeout_project)"
  by (simp add: timeout_project_def op_fails_def)

lemma west_date_unparsed:
  "parse_commit_date example_lib (lit ''2024-01-01 10:00:00 -0500\<newline>'') = None"
  by (simp add: parse_commit_date_def example_lib_def strip_def isspace_def startswith_def lit_def)







subsubsection \<open>Reading text files\<close>

lemma utf8_decode_ascii: "\<forall>b\<in>set bs. b < 128 \<Longrightarrow> utf8_decode bs = map Some bs"
  by (induction bs) auto

lemma universal_newlines_id: "13 \<notin> set s \<Longrightarrow> universal_newlines s = s"
  by (induction s rule: universal_newlines.induct) auto

lemma those_map_Some: "those (map Some xs) = Some xs"
  by (induction xs) auto

lemma map_filter_map_Some: "List.map_filter (\<lambda>x. x) (map Some xs) = xs"
  by (induction xs) (auto simp: List.map_filter_simps)

lemma read_text_ascii:
  assumes "\<forall>b\<in>set bs. (of_char b :: nat) < 128 \<and> (of_char b :: nat) \<noteq> 13"
  shows "read_text (Some (File bs)) = Some (lit bs)"
    and "read_text_ignore (Some (File bs)) = Some (lit bs)"
proof -
  have d: "utf8_decode (map of_char bs) = map Some (map of_char bs)"
    using assms by (intro utf8_decode_ascii) auto
  have n: "universal_newlines (map of_char bs) = map of_char bs"
    using assms by (intro universal_newlines_id) auto
  show "read_text (Some (File bs)) = Some (lit bs)"
    by (simp add: read_text_def d those_map_Some n lit_def del: map_map)
  show "read_text_ignore (Some (File bs)) = Some (lit bs)"
    by (simp add: read_text_ignore_def d map_filter_map_Some n lit_def del: map_map)
qed

lemma utf8_decode_accented:
  "utf8_decode (concat (replicate n [195, 169])) = replicate n (Some 233)"
  by (induction n) (simp_all add: is_continuation_def)

lemma map_filter_replicate_Some: "List.map_filter (\<lambda>x. x) (replicate n (Some c)) = replicate n c"
  by (induction n) (auto simp: List.map_filter_simps)

lemma accented_text:
  "read_text_ignore (Some (File accented_readme)) = Some (replicate 101 233)"
proof -
  have m: "map of_char accented_readme = concat (replicate 101 [195, 169 :: nat])"
    by (simp add: accented_readme_def map_concat)
  have n: "universal_newlines (replicate 101 (233::nat)) = replicate 101 233"
    by (intro universal_newlines_id) simp
  show ?thesis
    by (simp add: read_text_ignore_def m utf8_decode_accented map_filter_replicate_Some n)
qed

lemma check_readme_find:
  "check_readme env cands =
     (case find (path_exists env) cands of
        None \<Rightarrow> (False, 0)
      | Some f \<Rightarrow>
          (True, case read_text_ignore (fs env f) of
                   Some content \<Rightarrow> readme_tier (length content)
                 | None \<Rightarrow> 1))"
  by (induction cands) auto

lemma readme_of_quality:
  "has_readme (check_project_quality env) = fst (check_readme env readme_files)"
  "readme_quality (check_project_quality env) = snd (check_readme env readme_files)"
  by (simp_all add: check_project_quality_def Let_def)

lemma accented_project_readme:
  "find (path_exists accented_project) readme_files = Some ''README.md''"
  "fs accented_project ''README.md'' = Some (File accented_readme)"
  by (simp_all add: readme_files_def path_exists_def rstrip_slash_def accented_project_def
      bare_project_def)

lemma ascii_project_readme:
  "find (path_exists ascii_project) readme_files = Some ''README.rst''"
  "fs ascii_project ''README.rst'' = Some (File (replicate 201 (CHR ''a'')))"
  by (simp_all add: readme_files_def path_exists_def rstrip_slash_def ascii_project_def
      bare_project_def)

lemma bare_project_no_readme: "\<forall>f\<in>set readme_files. \<not> path_exists bare_project f"
  by (simp add: readme_files_def path_exists_def rstrip_slash_def bare_project_def)

subsubsection \<open>The example manifests\<close>

lemma inline_deps_counted: "counted \<noteq> 0 \<Longrightarrow> inline_deps content counted = counted"
  by (simp add: inline_deps_def)

lemma poetry_manifest_text: "read_text (Some (File poetry_manifest)) = Some (lit poetry_manifest)"
  by (rule read_text_ascii) (simp add: poetry_manifest_def)

lemma poetry_manifest_loop:
  "poetry_loop (lit poetry_manifest) =
     \<lparr>in_poetry_deps = True, in_dev_deps = False, poetry_deps = 1, dev_deps = 0\<rparr>"
  by (simp add: poetry_loop_def poetry_manifest_def poetry_line_def strip_def isspace_def
      startswith_def contains_def lit_def)

lemma str_nat_digit: "n < 10 \<Longrightarrow> str_nat n = [48 + n]"
  by (simp add: str_nat.simps)

lemma pip_and_poetry_files:
  "pip_and_poetry ''package.json'' = None"
  "pip_and_poetry ''requirements.txt'' = Some (File ''requests\<newline>'')"
  "pip_and_poetry ''pyproject.toml'' =
     Some (File ''[tool.poetry.dependencies]\<newline>requests = \"^2.31\"\<newline>'')"
  "pip_and_poetry ''go.mod'' = None"
  by (simp_all add: pip_and_poetry_def)

lemma pip_text: "read_text (Some (File ''requests\<newline>'')) = Some (lit ''requests\<newline>'')"
  by (rule read_text_ascii) simp

lemma small_poetry_text:
  "read_text (Some (File ''[tool.poetry.dependencies]\<newline>requests = \"^2.31\"\<newline>''))
   = Some (lit ''[tool.poetry.dependencies]\<newline>requests = \"^2.31\"\<newline>'')"
  by (rule read_text_ascii) simp

lemma small_poetry_loop:
  "poetry_loop (lit ''[tool.poetry.dependencies]\<newline>requests = \"^2.31\"\<newline>'') =
     \<lparr>in_poetry_deps = True, in_dev_deps = False, poetry_deps = 1, dev_deps = 0\<rparr>"
  by (simp add: poetry_loop_def poetry_line_def strip_def isspace_def
      startswith_def contains_def lit_def)

lemma pip_lines:
  "filter (\<lambda>line. strip line \<noteq> [] \<and> \<not> startswith line (lit ''#''))
     (file_lines (lit ''requests\<newline>'')) = [lit ''requests\<newline>'']"
  by (simp add: strip_def isspace_def startswith_def lit_def)

subsection \<open>The stale and dirty project\<close>




subsection \<open>Issues and pull requests\<close>

text \<open>
  Claim C3, as amended. When the repository document reports a raw open-issue count of 30
  and the list of open pull requests has 10 entries, the fetcher gives 20 open issues and
  10 open pull requests; the score adjustment for 10 open pull requests is 0 (the
  deduction needs more than 10) and the adjustment for 20 open issues is -0.5 (the
  deduction of 1.0 needs more than 20).
\<close>

theorem issue_and_pr_disambiguation:
  "open_issues (fetch_github_info lib
      (Response 200 (Some \<lparr>stargazers_count = s, open_issues_count = Some 30, updated_at = u\<rparr>))
      (Response 200 (Some 10))) = 20
   \<and> open_prs (fetch_github_info lib
      (Response 200 (Some \<lparr>stargazers_count = s, open_issues_count = Some 30, updated_at = u\<rparr>))
      (Response 200 (Some 10))) = Some 10
   \<and> open_prs_adjustment 10 = 0
   \<and> open_issues_adjustment 20 = - 0.5"
  by (simp add: fetch_github_info_def open_prs_adjustment_def open_issues_adjustment_def)

text \<open>The adjustments -0.3 and -1.0 of the scenario are not those of the aggregator.\<close>

theorem issue_and_pr_disambiguation_counterexample:
  "\<not> (open_issues (fetch_github_info example_lib (Response 200 (Some example_repo_data))
           (Response 200 (Some 10))) = 20
      \<and> open_prs_adjustment 10 = - 0.3
      \<and> open_issues_adjustment 20 = - 1.0)"
  by (simp add: open_prs_adjustment_def)

subsection \<open>Failure of the remote requests\<close>




subsection \<open>Only repositories are recorded\<close>

text \<open>
  Claim C5. Every record in the output of the walker is the analysis of a directory it
  considers (the base directory or an entry that is a directory with a name not starting
  with a dot) that contains \<open>.git\<close>, and carries its name and path. A directory without
  \<open>.git\<close> gives no record and leaves the list of projects as it was; when the paths of
  the considered directories are distinct, no record of the output has its path.
\<close>

theorem only_repositories_recorded:
  "(scan_projects lib senv [] = Some ps \<longrightarrow>
      (\<forall>r\<in>set ps. \<exists>env\<in>set (walker_candidates senv).
          path_exists env ''.git'' \<and> analyze_project lib env = Some r
          \<and> ph_name r = dir_name env \<and> ph_path r = dir_path env))
   \<and> (\<not> path_exists env ''.git'' \<longrightarrow>
         analyze_project lib env = None \<and> scan_item lib projects env = projects)
   \<and> (scan_projects lib senv [] = Some ps
        \<and> distinct (map dir_path (walker_candidates senv))
        \<and> env \<in> set (walker_candidates senv) \<and> \<not> path_exists env ''.git''
      \<longrightarrow> (\<forall>r\<in>set ps. ph_path r \<noteq> dir_path env))"
proof (intro conjI impI ballI)
  fix r assume "scan_projects lib senv [] = Some ps" "r \<in> set ps"
  then obtain e where e: "e \<in> set (walker_candidates senv)" "analyze_project lib e = Some r"
    using scan_projects_mem by fastforce
  then show "\<exists>env\<in>set (walker_candidates senv).
          path_exists env ''.git'' \<and> analyze_project lib env = Some r
          \<and> ph_name r = dir_name env \<and> ph_path r = dir_path env"
    using analyze_project_Some(1,2,3) [OF e(2)] by blast
next
  assume n: "\<not> path_exists env ''.git''"
  show a: "analyze_project lib env = None" using n by (rule analyze_project_no_git)
  show "scan_item lib projects env = projects" by (simp add: scan_item_def a)
next
  fix r
  assume h: "scan_projects lib senv [] = Some ps
        \<and> distinct (map dir_path (walker_candidates senv))
        \<and> env \<in> set (walker_candidates senv) \<and> \<not> path_exists env ''.git''"
    and r: "r \<in> set ps"
  then obtain e where e: "e \<in> set (walker_candidates senv)" "analyze_project lib e = Some r"
    using scan_projects_mem by fastforce
  have g: "path_exists e ''.git''" "ph_path r = dir_path e"
    using analyze_project_Some(1,3) [OF e(2)] by auto
  show "ph_path r \<noteq> dir_path env"
  proof
    assume "ph_path r = dir_path env"
    then have "dir_path e = dir_path env" using g by simp
    moreover have "inj_on dir_path (set (walker_candidates senv))"
      using h by (simp add: distinct_map)
    ultimately have "e = env" using e(1) h by (auto dest: inj_onD)
    then show False using g h by simp
  qed
qed

theorem only_repositories_recorded_witness:
  "scan_projects example_lib example_scan [] = Some [stale_record]
   \<and> stale_project \<in> set (walker_candidates example_scan)
   \<and> path_exists stale_project ''.git''
   \<and> analyze_project example_lib stale_project = Some stale_record
   \<and> plain_dir \<in> set (walker_candidates example_scan)
   \<and> \<not> path_exists plain_dir ''.git''
   \<and> analyze_project example_lib plain_dir = None
   \<and> scan_item example_lib [] plain_dir = []
   \<and> ph_path stale_record \<noteq> dir_path plain_dir"
proof -
  have n: "\<not> path_exists plain_dir ''.git''"
    by (simp add: plain_dir_def path_exists_def)
  have g: "path_exists stale_project ''.git''"
    by (simp add: stale_project_def bare_project_def path_exists_def rstrip_slash_def)
  have d: "distinct (map dir_path (walker_candidates example_scan))"
    by (simp add: example_scan_paths)
  show ?thesis
    using only_repositories_recorded [of example_lib example_scan "[stale_record]" plain_dir "[]"]
      example_scan_result n g d stale_record_eq
    by (simp add: example_scan_candidates)
qed

subsection \<open>Failure of the VCS inspector\<close>

text \<open>
  Claim C6. If one of the three sub-operations of the VCS inspector (branch, last commit,
  working-tree status) exits with a non-zero code or times out (or raises otherwise), the
  inspector returns no data, the analysis returns no record and the walker adds nothing.
  If instead the three complete and only the parsing of the commit date fails, the
  inspector returns its data with an absent last-commit time.
\<close>

theorem vcs_failure_skips_project:
  "(op_fails (git_branch_run env) \<or> op_fails (git_log_run env) \<or> op_fails (git_status_run env)
      \<longrightarrow> get_git_info lib (git_branch_run env) (git_log_run env) (git_status_run env) = None
          \<and> analyze_project lib env = None
          \<and> scan_item lib projects env = projects)
   \<and> (\<not> op_fails (git_branch_run env) \<and> \<not> op_fails (git_status_run env)
        \<and> git_log_run env = Completed 0 out \<and> parse_commit_date lib out = None
      \<longrightarrow> (\<exists>g. get_git_info lib (git_branch_run env) (git_log_run env) (git_status_run env) = Some g
               \<and> last_commit g = None))"
proof (intro conjI impI)
  assume f: "op_fails (git_branch_run env) \<or> op_fails (git_log_run env) \<or> op_fails (git_status_run env)"
  show g: "get_git_info lib (git_branch_run env) (git_log_run env) (git_status_run env) = None"
    using f by (rule get_git_info_fails)
  show a: "analyze_project lib env = None"
    by (simp add: analyze_project_def g)
  show "scan_item lib projects env = projects"
    by (simp add: scan_item_def a)
next
  assume h: "\<not> op_fails (git_branch_run env) \<and> \<not> op_fails (git_status_run env)
        \<and> git_log_run env = Completed 0 out \<and> parse_commit_date lib out = None"
  then obtain o1 o3 where "git_branch_run env = Completed 0 o1" "git_status_run env = Completed 0 o3"
    by (auto simp: not_op_fails)
  then show "\<exists>g. get_git_info lib (git_branch_run env) (git_log_run env) (git_status_run env) = Some g
               \<and> last_commit g = None"
    using h by (simp add: get_git_info_completes)
qed

theorem vcs_failure_skips_project_witness:
  "op_fails (git_log_run timeout_project)
   \<and> analyze_project example_lib timeout_project = None
   \<and> scan_item example_lib [] timeout_project = []
   \<and> parse_commit_date example_lib (lit ''2024-01-01 10:00:00 -0500\<newline>'') = None
   \<and> (\<exists>g. get_git_info example_lib (git_branch_run west_project) (git_log_run west_project)
             (git_status_run west_project) = Some g \<and> last_commit g = None)"
  using vcs_failure_skips_project [of timeout_project example_lib "[]" "[]"]
    vcs_failure_skips_project [of west_project example_lib "[]"
      "lit ''2024-01-01 10:00:00 -0500\<newline>''"]
    timeout_project_fails west_date_unparsed
  by (simp add: west_project_def bare_project_def op_fails_def)

subsection \<open>The remote-sync status\<close>

text \<open>
  Claim C10. The VCS inspector reports the remote-sync status \<open>unknown\<close> whenever it
  returns data; every record of the analysis and of the walker has this status; and the
  score of every record is the clamped sum that the same data with status \<open>clean\<close> would
  give, less 0.5.
\<close>

theorem remote_status_always_unknown:
  "(get_git_info lib b l s = Some g \<longrightarrow> remote_status g = lit ''unknown'')
   \<and> (analyze_project lib env = Some r \<longrightarrow>
        ph_remote_status r = lit ''unknown''
        \<and> (\<exists>g. get_git_info lib (git_branch_run env) (git_log_run env) (git_status_run env) = Some g
              \<and> ph_health_score r =
                  max 0 (min 10
                    (unclamped_score (clock_commit env) (clock_activity env)
                       (g\<lparr>remote_status := lit ''clean''\<rparr>)
                       (check_dependencies lib (fs env)) (Some (project_github_info lib env))
                       (Some (check_project_quality env)) - 0.5))))
   \<and> (scan_projects lib senv [] = Some ps \<longrightarrow> (\<forall>r\<in>set ps. ph_remote_status r = lit ''unknown''))"
proof (intro conjI impI ballI)
  assume "get_git_info lib b l s = Some g"
  then show "remote_status g = lit ''unknown''" by (rule get_git_info_remote_status)
next
  assume a: "analyze_project lib env = Some r"
  from analyze_project_Some(4) [OF a] obtain g where
    g: "get_git_info lib (git_branch_run env) (git_log_run env) (git_status_run env) = Some g"
       "ph_remote_status r = remote_status g"
       "ph_health_score r =
               calculate_health_score (clock_commit env) (clock_activity env) g
                 (check_dependencies lib (fs env)) (Some (project_github_info lib env))
                 (Some (check_project_quality env))"
    by blast
  have u: "remote_status g = lit ''unknown''" using g(1) by (rule get_git_info_remote_status)
  show "ph_remote_status r = lit ''unknown''" using g(2) u by simp
  have "unclamped_score (clock_commit env) (clock_activity env) g
          (check_dependencies lib (fs env)) (Some (project_github_info lib env))
          (Some (check_project_quality env))
        = unclamped_score (clock_commit env) (clock_activity env)
            (g\<lparr>remote_status := lit ''clean''\<rparr>)
            (check_dependencies lib (fs env)) (Some (project_github_info lib env))
            (Some (check_project_quality env)) - 0.5"
    using u by (simp add: unclamped_score_def remote_status_adjustment_def github_adjustment_def)
  then show "\<exists>g. get_git_info lib (git_branch_run env) (git_log_run env) (git_status_run env) = Some g
              \<and> ph_health_score r =
                  max 0 (min 10
                    (unclamped_score (clock_commit env) (clock_activity env)
                       (g\<lparr>remote_status := lit ''clean''\<rparr>)
                       (check_dependencies lib (fs env)) (Some (project_github_info lib env))
                       (Some (check_project_quality env)) - 0.5))"
    using g(1,3) by (auto simp: calculate_health_score_def)
next
  fix r assume "scan_projects lib senv [] = Some ps" "r \<in> set ps"
  then obtain e where e: "analyze_project lib e = Some r"
    using scan_projects_mem by fastforce
  from analyze_project_Some(4) [OF e] get_git_info_remote_status
  show "ph_remote_status r = lit ''unknown''" by fastforce
qed

theorem remote_status_always_unknown_witness:
  "analyze_project example_lib stale_project = Some stale_record
   \<and> scan_projects example_lib example_scan [] = Some [stale_record]
   \<and> ph_remote_status stale_record = lit ''unknown''
   \<and> ph_health_score stale_record = 2.5"
  using remote_status_always_unknown [of example_lib "git_branch_run stale_project"
      "git_log_run stale_project" "git_status_run stale_project"
      "\<lparr>branch = lit ''main'', last_commit = Some 0, uncommitted = 75,
        status = lit ''dirty'', remote_status = lit ''unknown''\<rparr>"
      stale_project stale_record example_scan "[stale_record]"]
    stale_record_eq example_scan_result stale_git_info
  by (simp add: stale_record_def)

subsection \<open>The README tier\<close>

text \<open>
  Claim C7, as amended. Without a README candidate the project has no README and tier 0.
  Otherwise the first candidate that exists decides: the tier is 1 when the file cannot be
  read, and else follows from the number of characters of the text read (UTF-8 with
  undecodable bytes dropped, line ends normalised) by the thresholds: 5 above 2000, 4
  above 1000, 3 above 500, 2 above 200, and 1 otherwise. For a file of ASCII bytes without
  carriage return this number is the byte length.
\<close>

theorem readme_tier_from_text_length:
  "((\<forall>f\<in>set readme_files. \<not> path_exists env f) \<longrightarrow>
      \<not> has_readme (check_project_quality env) \<and> readme_quality (check_project_quality env) = 0)
   \<and> (find (path_exists env) readme_files = Some f \<longrightarrow>
        has_readme (check_project_quality env)
        \<and> (read_text_ignore (fs env f) = None \<longrightarrow> readme_quality (check_project_quality env) = 1)
        \<and> (\<forall>content. read_text_ignore (fs env f) = Some content \<longrightarrow>
              readme_quality (check_project_quality env) =
                (if length content > 2000 then 5
                 else if length content > 1000 then 4
                 else if length content > 500 then 3
                 else if length content > 200 then 2
                 else 1)))
   \<and> ((\<forall>b\<in>set bs. (of_char b :: nat) < 128 \<and> (of_char b :: nat) \<noteq> 13) \<longrightarrow>
        (\<exists>content. read_text_ignore (Some (File bs)) = Some content \<and> length content = length bs))"
proof (intro conjI impI allI)
  assume "\<forall>f\<in>set readme_files. \<not> path_exists env f"
  then have "find (path_exists env) readme_files = None"
    by (simp add: find_None_iff)
  then show "\<not> has_readme (check_project_quality env)"
    and "readme_quality (check_project_quality env) = 0"
    by (simp_all add: readme_of_quality check_readme_find)
next
  assume f: "find (path_exists env) readme_files = Some f"
  show "has_readme (check_project_quality env)"
    by (simp add: readme_of_quality check_readme_find f)
  show "readme_quality (check_project_quality env) = 1" if "read_text_ignore (fs env f) = None"
    using that by (simp add: readme_of_quality check_readme_find f)
  show "readme_quality (check_project_quality env) =
                (if length content > 2000 then 5
                 else if length content > 1000 then 4
                 else if length content > 500 then 3
                 else if length content > 200 then 2
                 else 1)"
    if "read_text_ignore (fs env f) = Some content" for content
    using that by (simp add: readme_of_quality check_readme_find f readme_tier_def)
next
  assume "\<forall>b\<in>set bs. (of_char b :: nat) < 128 \<and> (of_char b :: nat) \<noteq> 13"
  then show "\<exists>content. read_text_ignore (Some (File bs)) = Some content \<and> length content = length bs"
    by (simp add: read_text_ascii lit_def)
qed

theorem readme_tier_from_text_length_witness:
  "\<not> has_readme (check_project_quality bare_project)
   \<and> readme_quality (check_project_quality bare_project) = 0
   \<and> has_readme (check_project_quality ascii_project)
   \<and> read_text_ignore (fs ascii_project ''README.rst'') = Some (lit (replicate 201 (CHR ''a'')))
   \<and> readme_quality (check_project_quality ascii_project) = 2
   \<and> readme_quality (check_project_quality accented_project) = 1"
proof -
  have a: "read_text_ignore (Some (File (replicate 201 (CHR ''a'')))) = Some (lit (replicate 201 (CHR ''a'')))"
    by (rule read_text_ascii) simp
  show ?thesis
    using readme_tier_from_text_length [of bare_project "''README.md''" "[]"]
      readme_tier_from_text_length [of ascii_project "''README.rst''" "replicate 201 (CHR ''a'')"]
      readme_tier_from_text_length [of accented_project "''README.md''" "[]"]
      bare_project_no_readme ascii_project_readme accented_project_readme a accented_text
    by (simp add: lit_def)
qed

text \<open>A README of 202 bytes that hold 101 characters has tier 1, where the byte length
  is above 200.\<close>

theorem readme_tier_from_text_length_counterexample:
  "fs accented_project ''README.md'' = Some (File accented_readme)
   \<and> length accented_readme = 202
   \<and> readme_quality (check_project_quality accented_project) = 1"
  by (simp add: accented_project_readme readme_of_quality check_readme_find accented_text
      readme_tier_def)
     (simp add: accented_readme_def length_concat sum_list_replicate)

subsection \<open>The multi-language bonus\<close>

text \<open>
  Claim C8, on the code. With a \<open>requirements.txt\<close> and a \<open>pyproject.toml\<close> the
  analyzer lists \<open>Python\<close> twice, and the bonus of 0.2 for more than one language is
  given although one language was detected.
\<close>

theorem python_counted_as_two_languages:
  "languages (check_dependencies example_lib pip_and_poetry) = [lit ''Python'', lit ''Python'']
   \<and> dep_counts (check_dependencies example_lib pip_and_poetry)
       = [(lit ''pip'', 1), (lit ''poetry'', 1)]
   \<and> remdups (languages (check_dependencies example_lib pip_and_poetry)) = [lit ''Python'']
   \<and> multi_language_adjustment (check_dependencies example_lib pip_and_poetry) = 0.2"
proof -
  have r: "check_requirements_txt pip_and_poetry no_dep_info =
       \<lparr>has_deps = True, languages = [lit ''Python''], dep_counts = [(lit ''pip'', 1)],
        details = [lit ''pip: 1 requirements'']\<rparr>"
    by (simp add: check_requirements_txt_def pip_and_poetry_files pip_text pip_lines
        str_nat_digit)
       (simp add: lit_def)
  have c: "check_dependencies example_lib pip_and_poetry =
       \<lparr>has_deps = True, languages = [lit ''Python'', lit ''Python''],
        dep_counts = [(lit ''pip'', 1), (lit ''poetry'', 1)],
        details = [lit ''pip: 1 requirements'', lit ''poetry: 1 deps'']\<rparr>"
    by (simp add: check_dependencies_def check_package_json_def check_go_mod_def
        pip_and_poetry_files r [unfolded no_dep_info_def] check_pyproject_def small_poetry_text
        small_poetry_loop inline_deps_counted str_nat_digit)
       (simp add: lit_def)
  show ?thesis
    by (simp add: c multi_language_adjustment_def)
qed

subsection \<open>Counting the dependencies of the sectioned manifest\<close>

text \<open>
  Claim C9, on the code. In a dependency section that pins the runtime and declares
  \<open>python-dateutil\<close> and \<open>requests\<close>, the loop counts one dependency: every line
  that starts with \<open>python\<close> is left out, not only the pin of the runtime.
\<close>

theorem python_prefixed_dependency_skipped:
  "poetry_deps (poetry_loop (lit poetry_manifest)) = 1
   \<and> check_dependencies example_lib poetry_only =
       \<lparr>has_deps = True, languages = [lit ''Python''], dep_counts = [(lit ''poetry'', 1)],
        details = [lit ''poetry: 1 deps'']\<rparr>"
proof -
  have p: "check_pyproject poetry_only no_dep_info =
       \<lparr>has_deps = True, languages = [lit ''Python''], dep_counts = [(lit ''poetry'', 1)],
        details = [lit ''poetry: 1 deps'']\<rparr>"
    by (simp add: check_pyproject_def poetry_only_def poetry_manifest_text poetry_manifest_loop
        inline_deps_counted str_nat_digit)
       (simp add: lit_def)
  have n: "poetry_only ''package.json'' = None" "poetry_only ''requirements.txt'' = None"
    "poetry_only ''go.mod'' = None"
    by (simp_all add: poetry_only_def)
  show ?thesis
    by (simp add: poetry_manifest_loop check_dependencies_def check_package_json_def
        check_requirements_txt_def check_go_mod_def n p [unfolded no_dep_info_def])
qed

end
